theory Spec2Isabelle
  imports Main
begin

section \<open>Key-value store record upload (\<open>putRecord\<close>)\<close>

subsection \<open>JavaScript values\<close>

text \<open>
  The option bag handed to \<open>putRecord\<close> and the parsed JSON responses of the transport
  are loosely typed, so both are values of one datatype. Strings and Buffers are byte
  sequences; an object is the list of its own properties (names unique). Numbers are
  integers here, and arrays are left out: \<open>putRecord\<close> does no arithmetic on a value
  it is given and reads no element of one.
\<close>

datatype jsval =
    JUndefined
  | JNull
  | JBool bool
  | JNum int
  | JStr string
  | JBuf string
  | JObj "(string \<times> jsval) list"

datatype jstype = TUndefined | TNull | TBoolean | TNumber | TString | TBuffer | TObject

fun typeOf :: "jsval \<Rightarrow> jstype" where
  "typeOf JUndefined = TUndefined"
| "typeOf JNull = TNull"
| "typeOf (JBool b) = TBoolean"
| "typeOf (JNum n) = TNumber"
| "typeOf (JStr s) = TString"
| "typeOf (JBuf b) = TBuffer"
| "typeOf (JObj fs) = TObject"

datatype error =
    InvalidParameter string
  | TypeError
  | TransportFailure jsval

text \<open>
  How a call ends: \<open>Throws\<close> is an exception raised before any promise exists,
  \<open>Rejects\<close> a rejected promise, \<open>Resolves\<close> a fulfilled one.
\<close>

datatype completion = Throws error | Rejects error | Resolves jsval

text \<open>Decimal rendering of a number, for string concatenation.\<close>

function digits :: "nat \<Rightarrow> string" where
  "digits n = (if n < 10 then [char_of (48 + n)]
               else digits (n div 10) @ [char_of (48 + n mod 10)])"
  by pat_completeness auto
termination
  by (relation "measure (\<lambda>n. n)") auto

text \<open>
  \<open>'' + v\<close>: the string a value turns into when it is concatenated. A Buffer gives its
  bytes, an object the fixed text of \<open>Object.prototype.toString\<close>.
\<close>

fun toStr :: "jsval \<Rightarrow> string" where
  "toStr JUndefined = ''undefined''"
| "toStr JNull = ''null''"
| "toStr (JBool b) = (if b then ''true'' else ''false'')"
| "toStr (JNum n) = (if n < 0 then ''-'' @ digits (nat (- n)) else digits (nat n))"
| "toStr (JStr s) = s"
| "toStr (JBuf b) = b"
| "toStr (JObj fs) = ''[object Object]''"

text \<open>
  Property read \<open>v.p\<close>, for the two names \<open>putRecord\<close> reads (\<open>data\<close>,
  \<open>signedUrl\<close>): on \<open>undefined\<close> and \<open>null\<close> it raises a TypeError, on an object it
  gives the property or \<open>undefined\<close>, on any other value \<open>undefined\<close> (no primitive
  has a property of either name).
\<close>

fun getProp :: "jsval \<Rightarrow> string \<Rightarrow> error + jsval" where
  "getProp JUndefined p = Inl TypeError"
| "getProp JNull p = Inl TypeError"
| "getProp (JObj fs) p = Inr (case map_of fs p of None \<Rightarrow> JUndefined | Some v \<Rightarrow> v)"
| "getProp v p = Inr JUndefined"

subsection \<open>Requests, options and the trace of a call\<close>

text \<open>
  The descriptor handed to the transport. \<open>url\<close> is a value, not a string: the
  descriptor of the second upload request takes whatever the response held.
\<close>

record request =
  url :: jsval
  httpMethod :: string
  reqBody :: "string option"
  json :: bool
  headers :: "(string \<times> jsval) list"

text \<open>The fields \<open>putRecord\<close> reads from its option bag; an absent one is \<open>JUndefined\<close>.\<close>

record options =
  baseUrl :: jsval
  storeId :: jsval
  key :: jsval
  body :: jsval
  contentType :: jsval

text \<open>What a call does to the outside, in order: compressing a body, calling the transport.\<close>

datatype event = Compress jsval | Call request

fun calls :: "event list \<Rightarrow> request list" where
  "calls [] = []"
| "calls (Compress b # es) = calls es"
| "calls (Call r # es) = r # calls es"

subsection \<open>Constants\<close>

definition BASE_PATH :: string where
  "BASE_PATH = ''/v2/key-value-stores''"

definition SIGNED_URL_UPLOAD_MIN_BYTESIZE :: nat where
  "SIGNED_URL_UPLOAD_MIN_BYTESIZE = 1024 * 256"

subsection \<open>Parameter validation\<close>

text \<open>
  Modelled from the spec: the emptiness that the validation of \<open>./utils\<close> (not among
  the sources) rejects; the spec asks for a "non-empty string" and a "non-empty" body of
  byte-sequence or string type.
\<close>

fun isEmpty :: "jsval \<Rightarrow> bool" where
  "isEmpty (JStr s) = (s = [])"
| "isEmpty (JBuf b) = (b = [])"
| "isEmpty v = False"

text \<open>
  Modelled from the spec: \<open>checkParamOrThrow\<close> of \<open>./utils\<close>, which is not among the
  sources. The spec (sections 4.1 and 7) has a parameter fail with \<open>InvalidParameter\<close>
  when it is "missing, empty, or wrong shape". The third argument is the descriptor the
  caller passes, \<open>'String'\<close> or \<open>'Buffer | String'\<close>, as the list of its alternatives.
  \<open>Inl\<close> is the exception thrown, \<open>Inr ()\<close> a normal return.
\<close>

definition checkParamOrThrow :: "jsval \<Rightarrow> string \<Rightarrow> jstype list \<Rightarrow> error + unit" where
  "checkParamOrThrow v name tys =
     (if typeOf v \<in> set tys \<and> \<not> isEmpty v then Inr () else Inl (InvalidParameter name))"

subsection \<open>\<open>putRecord\<close>\<close>

text \<open>
  The two collaborators are parameters: \<open>requestPromise\<close>, the transport, takes a
  descriptor and the state of the outside world and gives a failure or a response with
  the new state; \<open>gzip\<close> is the compression behind \<open>gzipPromise\<close> (not among the
  sources; the spec has it as a function from bytes to bytes), giving the compressed
  Buffer's bytes.
\<close>

type_synonym 'w transport = "request \<Rightarrow> 'w \<Rightarrow> (error + jsval) \<times> 'w"

text \<open>The default of the destructuring: only \<open>undefined\<close> is replaced.\<close>

definition contentTypeOf :: "options \<Rightarrow> jsval" where
  "contentTypeOf opts =
     (if contentType opts = JUndefined then JStr ''text/plain; charset=utf-8''
      else contentType opts)"

text \<open>The object literal \<open>requestOpts\<close>.\<close>

definition requestOpts :: "options \<Rightarrow> string \<Rightarrow> request" where
  "requestOpts opts gzipedBody =
     \<lparr> url = JStr (toStr (baseUrl opts) @ BASE_PATH @ ''/'' @ toStr (storeId opts)
                    @ ''/records/'' @ toStr (key opts)),
       httpMethod = ''PUT'',
       reqBody = Some gzipedBody,
       json = False,
       headers = [(''Content-Type'', contentTypeOf opts), (''Content-Encoding'', JStr ''gzip'')] \<rparr>"

text \<open>The descriptor of the request for a signed upload URL.\<close>

definition signedUrlRequest :: "options \<Rightarrow> request" where
  "signedUrlRequest opts =
     \<lparr> url = JStr (toStr (baseUrl opts) @ BASE_PATH @ ''/'' @ toStr (storeId opts)
                    @ ''/records/'' @ toStr (key opts) @ ''/direct-upload-url''),
       httpMethod = ''GET'',
       reqBody = None,
       json = True,
       headers = [(''Content-Type'', contentTypeOf opts)] \<rparr>"

text \<open>A promise of the transport, settled.\<close>

fun settle :: "error + jsval \<Rightarrow> completion" where
  "settle (Inl e) = Rejects e"
| "settle (Inr v) = Resolves v"

text \<open>The expression \<open>response.data.signedUrl\<close>: either read may raise.\<close>

definition signedUrlOf :: "jsval \<Rightarrow> error + jsval" where
  "signedUrlOf response =
     (case getProp response ''data'' of
        Inl e \<Rightarrow> Inl e
      | Inr d \<Rightarrow> getProp d ''signedUrl'')"

text \<open>
  The inner callback \<open>function (response)\<close>: reads \<open>response.data.signedUrl\<close>, copies
  \<open>requestOpts\<close> with that \<open>url\<close> and calls the transport. An exception in a
  callback rejects the promise. The result is the completion, the requests issued and
  the new state.
\<close>

definition uploadToSignedUrl ::
  "'w transport \<Rightarrow> request \<Rightarrow> jsval \<Rightarrow> 'w \<Rightarrow> completion \<times> event list \<times> 'w" where
  "uploadToSignedUrl requestPromise ropts response w =
     (case signedUrlOf response of
        Inl e \<Rightarrow> (Rejects e, [], w)
      | Inr signedUrl \<Rightarrow>
         (let s3RequestOpts = ropts\<lparr>url := signedUrl\<rparr>;
              (r, w') = requestPromise s3RequestOpts w
          in (settle r, [Call s3RequestOpts], w')))"

text \<open>The outer callback \<open>function (gzipedBody)\<close>.\<close>

definition upload ::
  "'w transport \<Rightarrow> options \<Rightarrow> string \<Rightarrow> 'w \<Rightarrow> completion \<times> event list \<times> 'w" where
  "upload requestPromise opts gzipedBody w =
     (let ropts = requestOpts opts gzipedBody
      in if length gzipedBody < SIGNED_URL_UPLOAD_MIN_BYTESIZE
         then (let (r, w') = requestPromise ropts w in (settle r, [Call ropts], w'))
         else (let (r, w') = requestPromise (signedUrlRequest opts) w
               in case r of
                    Inl e \<Rightarrow> (Rejects e, [Call (signedUrlRequest opts)], w')
                  | Inr response \<Rightarrow>
                     (let (c, es, w'') = uploadToSignedUrl requestPromise ropts response w'
                      in (c, Call (signedUrlRequest opts) # es, w''))))"

text \<open>The five checks, in the order of the source; the first that throws ends the call.\<close>

definition checkParams :: "options \<Rightarrow> error + unit" where
  "checkParams opts =
     (case checkParamOrThrow (baseUrl opts) ''baseUrl'' [TString] of
        Inl e \<Rightarrow> Inl e
      | Inr _ \<Rightarrow>
     (case checkParamOrThrow (storeId opts) ''storeId'' [TString] of
        Inl e \<Rightarrow> Inl e
      | Inr _ \<Rightarrow>
     (case checkParamOrThrow (key opts) ''key'' [TString] of
        Inl e \<Rightarrow> Inl e
      | Inr _ \<Rightarrow>
     (case checkParamOrThrow (contentTypeOf opts) ''contentType'' [TString] of
        Inl e \<Rightarrow> Inl e
      | Inr _ \<Rightarrow> checkParamOrThrow (body opts) ''body'' [TBuffer, TString]))))"

definition putRecord ::
  "'w transport \<Rightarrow> (jsval \<Rightarrow> string) \<Rightarrow> options \<Rightarrow> 'w \<Rightarrow> completion \<times> event list \<times> 'w" where
  "putRecord requestPromise gzip opts w =
     (case checkParams opts of
        Inl e \<Rightarrow> (Throws e, [], w)
      | Inr _ \<Rightarrow>
         (let (c, es, w') = upload requestPromise opts (gzip (body opts)) w
          in (c, Compress (body opts) # es, w')))"

text \<open>The parts of a result.\<close>

abbreviation completionOf :: "completion \<times> event list \<times> 'w \<Rightarrow> completion" where
  "completionOf r \<equiv> fst r"

abbreviation eventsOf :: "completion \<times> event list \<times> 'w \<Rightarrow> event list" where
  "eventsOf r \<equiv> fst (snd r)"

subsection \<open>Example collaborators and inputs\<close>

text \<open>
  Transports over a world that counts the calls made, compressions of fixed output
  length, and the option bag of the documented call (store \<open>store1\<close>, key \<open>foo\<close>,
  body \<open>bar\<close>, no content type).
\<close>

definition signedUrlResponse :: jsval where
  "signedUrlResponse = JObj [(''data'', JObj [(''signedUrl'', JStr ''https://s3.example/upload'')])]"

definition okTransport :: "nat transport" where
  "okTransport r n = (Inr (if httpMethod r = ''GET'' then signedUrlResponse else JStr []), Suc n)"

definition failingTransport :: "nat transport" where
  "failingTransport r n = (Inl (TransportFailure (JNum 500)), Suc n)"

definition noSignedUrlTransport :: "nat transport" where
  "noSignedUrlTransport r n = (Inr (JObj [(''data'', JObj [])]), Suc n)"

definition noDataTransport :: "nat transport" where
  "noDataTransport r n = (Inr (JObj []), Suc n)"

definition gzipSmall :: "jsval \<Rightarrow> string" where
  "gzipSmall b = ''gz''"

definition gzipLarge :: "jsval \<Rightarrow> string" where
  "gzipLarge b = replicate 262144 (CHR ''z'')"

definition exampleOptions :: options where
  "exampleOptions =
     \<lparr> baseUrl = JStr ''https://api.example'', storeId = JStr ''store1'', key = JStr ''foo'',
       body = JStr ''bar'', contentType = JUndefined \<rparr>"


text \<open>The names \<open>putRecord\<close> gives its checks, in order.\<close>

definition parameterNames :: "string list" where
  "parameterNames = [''baseUrl'', ''storeId'', ''key'', ''contentType'', ''body'']"

text \<open>A value that is absent, \<open>null\<close>, or an empty string or Buffer.\<close>

definition missingOrEmpty :: "jsval \<Rightarrow> bool" where
  "missingOrEmpty v \<longleftrightarrow> v = JUndefined \<or> v = JNull \<or> isEmpty v"

section \<open>Properties\<close>

subsection \<open>Unfolding the call\<close>

lemma putRecord_invalid:
  "checkParams opts = Inl e \<Longrightarrow> putRecord rp gzip opts w = (Throws e, [], w)"
  by (simp add: putRecord_def)

lemma putRecord_valid:
  "checkParams opts = Inr () \<Longrightarrow>
   putRecord rp gzip opts w =
     (completionOf (upload rp opts (gzip (body opts)) w),
      Compress (body opts) # eventsOf (upload rp opts (gzip (body opts)) w),
      snd (snd (upload rp opts (gzip (body opts)) w)))"
  by (simp add: putRecord_def case_prod_beta)

lemma upload_small:
  "length z < SIGNED_URL_UPLOAD_MIN_BYTESIZE \<Longrightarrow>
   upload rp opts z w =
     (settle (fst (rp (requestOpts opts z) w)), [Call (requestOpts opts z)],
      snd (rp (requestOpts opts z) w))"
  by (simp add: upload_def Let_def case_prod_beta)

lemma upload_large_failed:
  "\<not> length z < SIGNED_URL_UPLOAD_MIN_BYTESIZE \<Longrightarrow>
   fst (rp (signedUrlRequest opts) w) = Inl e \<Longrightarrow>
   upload rp opts z w =
     (Rejects e, [Call (signedUrlRequest opts)], snd (rp (signedUrlRequest opts) w))"
  by (simp add: upload_def Let_def case_prod_beta)

lemma upload_large_unreadable:
  "\<not> length z < SIGNED_URL_UPLOAD_MIN_BYTESIZE \<Longrightarrow>
   fst (rp (signedUrlRequest opts) w) = Inr response \<Longrightarrow>
   signedUrlOf response = Inl e \<Longrightarrow>
   upload rp opts z w =
     (Rejects e, [Call (signedUrlRequest opts)], snd (rp (signedUrlRequest opts) w))"
  by (simp add: upload_def uploadToSignedUrl_def Let_def case_prod_beta)

lemma upload_large_signed:
  "\<not> length z < SIGNED_URL_UPLOAD_MIN_BYTESIZE \<Longrightarrow>
   fst (rp (signedUrlRequest opts) w) = Inr response \<Longrightarrow>
   signedUrlOf response = Inr u \<Longrightarrow>
   upload rp opts z w =
     (settle (fst (rp ((requestOpts opts z)\<lparr>url := u\<rparr>) (snd (rp (signedUrlRequest opts) w)))),
      [Call (signedUrlRequest opts), Call ((requestOpts opts z)\<lparr>url := u\<rparr>)],
      snd (rp ((requestOpts opts z)\<lparr>url := u\<rparr>) (snd (rp (signedUrlRequest opts) w))))"
  by (simp add: upload_def uploadToSignedUrl_def Let_def case_prod_beta)

lemma signedUrlOf_unreadable:
  "response = JUndefined \<or> response = JNull
   \<or> getProp response ''data'' = Inr JUndefined \<or> getProp response ''data'' = Inr JNull \<Longrightarrow>
   signedUrlOf response = Inl TypeError"
  by (auto simp: signedUrlOf_def)


lemma threshold_value: "SIGNED_URL_UPLOAD_MIN_BYTESIZE = 262144"
  by (simp add: SIGNED_URL_UPLOAD_MIN_BYTESIZE_def)

lemma exampleOptions_valid: "checkParams exampleOptions = Inr ()"
  by (simp add: checkParams_def checkParamOrThrow_def contentTypeOf_def exampleOptions_def)

lemma calls_putRecord_valid:
  "checkParams opts = Inr () \<Longrightarrow>
   calls (eventsOf (putRecord rp gzip opts w)) = calls (eventsOf (upload rp opts (gzip (body opts)) w))"
  by (simp add: putRecord_valid)

lemma calls_upload:
  "calls (eventsOf (upload rp opts z w)) =
     (if length z < SIGNED_URL_UPLOAD_MIN_BYTESIZE then [requestOpts opts z]
      else signedUrlRequest opts #
           (case fst (rp (signedUrlRequest opts) w) of
              Inl e \<Rightarrow> []
            | Inr response \<Rightarrow>
               (case signedUrlOf response of
                  Inl e \<Rightarrow> []
                | Inr u \<Rightarrow> [(requestOpts opts z)\<lparr>url := u\<rparr>])))"
  by (simp add: upload_def uploadToSignedUrl_def Let_def case_prod_beta split: sum.split)



subsection \<open>The two upload paths\<close>




text \<open>
  C2. The threshold is 262144 bytes, and a valid call whose compressed body has exactly
  that length starts with the GET for a signed URL; one byte less and the only request is
  the PUT to the record endpoint.
\<close>

theorem threshold_exclusive_on_small_side:
  "SIGNED_URL_UPLOAD_MIN_BYTESIZE = 262144
   \<and> (checkParams opts = Inr () \<and> length (gzip (body opts)) = 262144 \<longrightarrow>
        take 1 (calls (eventsOf (putRecord rp gzip opts w))) = [signedUrlRequest opts]
        \<and> httpMethod (signedUrlRequest opts) = ''GET'')
   \<and> (checkParams opts = Inr () \<and> length (gzip (body opts)) = 262143 \<longrightarrow>
        calls (eventsOf (putRecord rp gzip opts w)) = [requestOpts opts (gzip (body opts))])"
  by (simp add: calls_putRecord_valid calls_upload threshold_value signedUrlRequest_def)

theorem threshold_exclusive_on_small_side_witness:
  "checkParams exampleOptions = Inr ()
   \<and> length (gzipLarge (body exampleOptions)) = 262144
   \<and> map httpMethod (calls (eventsOf (putRecord okTransport gzipLarge exampleOptions 0))) =
       [''GET'', ''PUT'']
   \<and> map url (calls (eventsOf (putRecord okTransport gzipLarge exampleOptions 0))) =
       [JStr ''https://api.example/v2/key-value-stores/store1/records/foo/direct-upload-url'',
        JStr ''https://s3.example/upload'']"
proof -
  have len: "length (gzipLarge (body exampleOptions)) = 262144"
    by (simp add: gzipLarge_def)
  have "take 1 (calls (eventsOf (putRecord okTransport gzipLarge exampleOptions 0))) =
          [signedUrlRequest exampleOptions]"
    using threshold_exclusive_on_small_side [of exampleOptions gzipLarge okTransport 0]
      exampleOptions_valid len by blast
  moreover have "calls (eventsOf (putRecord okTransport gzipLarge exampleOptions 0)) =
      [signedUrlRequest exampleOptions,
       (requestOpts exampleOptions (gzipLarge (body exampleOptions)))
         \<lparr>url := JStr ''https://s3.example/upload''\<rparr>]"
    by (simp add: calls_putRecord_valid exampleOptions_valid calls_upload threshold_value len
        okTransport_def signedUrlRequest_def signedUrlOf_def signedUrlResponse_def)
  ultimately show ?thesis
    using exampleOptions_valid len
    by (simp add: signedUrlRequest_def requestOpts_def exampleOptions_def BASE_PATH_def)
qed

subsection \<open>Headers\<close>

lemma headers_url_update: "headers (r\<lparr>url := u\<rparr>) = headers r"
  by simp







subsection \<open>Failure of the request for a signed URL\<close>

text \<open>
  C6. On a valid call whose compressed body has at least 262144 bytes, when the transport
  fails the GET for a signed URL, the call is rejected with that very failure and the GET
  is the only request: the trace is the compression followed by that one call.
\<close>

theorem failed_signedUrl_request_short_circuits:
  assumes "checkParams opts = Inr ()"
    and "\<not> length (gzip (body opts)) < 262144"
    and "fst (rp (signedUrlRequest opts) w) = Inl e"
  shows "putRecord rp gzip opts w =
           (Rejects e, [Compress (body opts), Call (signedUrlRequest opts)],
            snd (rp (signedUrlRequest opts) w))"
proof -
  have "upload rp opts (gzip (body opts)) w =
          (Rejects e, [Call (signedUrlRequest opts)], snd (rp (signedUrlRequest opts) w))"
    using assms(2,3) by (simp add: upload_large_failed threshold_value)
  then show ?thesis
    using assms(1) by (simp add: putRecord_valid)
qed

theorem failed_signedUrl_request_short_circuits_witness:
  "checkParams exampleOptions = Inr ()
   \<and> \<not> length (gzipLarge (body exampleOptions)) < 262144
   \<and> fst (failingTransport (signedUrlRequest exampleOptions) 0) = Inl (TransportFailure (JNum 500))
   \<and> putRecord failingTransport gzipLarge exampleOptions 0 =
       (Rejects (TransportFailure (JNum 500)),
        [Compress (body exampleOptions), Call (signedUrlRequest exampleOptions)], 1)"
proof -
  have l: "\<not> length (gzipLarge (body exampleOptions)) < 262144"
    by (simp add: gzipLarge_def)
  have f: "fst (failingTransport (signedUrlRequest exampleOptions) 0) = Inl (TransportFailure (JNum 500))"
    by (simp add: failingTransport_def)
  show ?thesis
    using failed_signedUrl_request_short_circuits
      [where opts = exampleOptions and gzip = gzipLarge and rp = failingTransport and w = 0,
       OF exampleOptions_valid l f] l f exampleOptions_valid
    by (simp add: failingTransport_def)
qed

subsection \<open>The request sent to the signed URL\<close>


lemma signedUrlOf_signedUrlResponse:
  "signedUrlOf signedUrlResponse = Inr (JStr ''https://s3.example/upload'')"
  by (simp add: signedUrlOf_def signedUrlResponse_def)


subsection \<open>Number of requests\<close>

lemma distinct_get_put:
  "signedUrlRequest opts \<noteq> (requestOpts opts z)\<lparr>url := u\<rparr>"
proof
  assume "signedUrlRequest opts = (requestOpts opts z)\<lparr>url := u\<rparr>"
  then have "httpMethod (signedUrlRequest opts) = httpMethod ((requestOpts opts z)\<lparr>url := u\<rparr>)"
    by simp
  then show False
    by (simp add: signedUrlRequest_def requestOpts_def)
qed

lemma calls_upload_bounded:
  "length (calls (eventsOf (upload rp opts z w))) \<le> 2
   \<and> distinct (calls (eventsOf (upload rp opts z w)))
   \<and> (length (calls (eventsOf (upload rp opts z w))) = 2 \<longrightarrow>
        (\<exists>response. fst (rp (hd (calls (eventsOf (upload rp opts z w)))) w) = Inr response))"
  by (simp add: calls_upload distinct_get_put split: sum.split)

text \<open>
  C8. Whatever the arguments, the transport and the compression, a call of \<open>putRecord\<close>
  issues at most two requests, no request twice, and a second request only after the
  first one succeeded: a failed request is the last one.
\<close>

theorem at_most_two_requests_no_retry:
  "length (calls (eventsOf (putRecord rp gzip opts w))) \<le> 2
   \<and> distinct (calls (eventsOf (putRecord rp gzip opts w)))
   \<and> (length (calls (eventsOf (putRecord rp gzip opts w))) = 2 \<longrightarrow>
        (\<exists>response. fst (rp (hd (calls (eventsOf (putRecord rp gzip opts w)))) w) = Inr response))"
proof (cases "checkParams opts")
  case (Inl e)
  then show ?thesis
    by (simp add: putRecord_invalid)
next
  case (Inr x)
  then have "checkParams opts = Inr ()"
    by simp
  then have "calls (eventsOf (putRecord rp gzip opts w)) =
             calls (eventsOf (upload rp opts (gzip (body opts)) w))"
    by (rule calls_putRecord_valid)
  then show ?thesis
    using calls_upload_bounded [of rp opts "gzip (body opts)" w] by simp
qed

theorem at_most_two_requests_no_retry_witness:
  "length (calls (eventsOf (putRecord okTransport gzipLarge exampleOptions 0))) = 2
   \<and> (\<exists>response. fst (okTransport
          (hd (calls (eventsOf (putRecord okTransport gzipLarge exampleOptions 0)))) 0) = Inr response)
   \<and> length (calls (eventsOf (putRecord failingTransport gzipLarge exampleOptions 0))) = 1"
proof -
  have l: "\<not> length (gzipLarge (body exampleOptions)) < 262144"
    by (simp add: gzipLarge_def)
  have two: "length (calls (eventsOf (putRecord okTransport gzipLarge exampleOptions 0))) = 2"
    using l by (simp add: calls_putRecord_valid exampleOptions_valid calls_upload threshold_value
        okTransport_def signedUrlRequest_def signedUrlOf_signedUrlResponse)
  have one: "length (calls (eventsOf (putRecord failingTransport gzipLarge exampleOptions 0))) = 1"
    using l by (simp add: calls_putRecord_valid exampleOptions_valid calls_upload threshold_value
        failingTransport_def)
  show ?thesis
    using at_most_two_requests_no_retry [of okTransport gzipLarge exampleOptions 0] two one
    by simp
qed

subsection \<open>A response without a signed URL\<close>

lemma signedUrlOf_absent:
  "getProp response ''data'' = Inr d \<Longrightarrow> getProp d ''signedUrl'' = Inr JUndefined \<Longrightarrow>
   signedUrlOf response = Inr JUndefined"
  by (simp add: signedUrlOf_def)

text \<open>
  C3, as the code has it. On a valid large-body call whose GET succeeded: when the
  response or its \<open>data\<close> is \<open>undefined\<close> or \<open>null\<close>, reading \<open>data.signedUrl\<close>
  raises, the call is rejected with that TypeError and the GET stays the only request.
  When \<open>data\<close> is there and has no \<open>signedUrl\<close>, nothing checks the value read: the
  transport is called a second time, with \<open>requestOpts\<close> whose \<open>url\<close> is
  \<open>undefined\<close>, and the call ends as that second request ends.
\<close>

theorem signedUrl_response_without_url:
  assumes "checkParams opts = Inr ()"
    and "\<not> length (gzip (body opts)) < 262144"
    and "fst (rp (signedUrlRequest opts) w) = Inr response"
  shows "(response = JUndefined \<or> response = JNull
          \<or> getProp response ''data'' = Inr JUndefined \<or> getProp response ''data'' = Inr JNull \<longrightarrow>
            putRecord rp gzip opts w =
              (Rejects TypeError, [Compress (body opts), Call (signedUrlRequest opts)],
               snd (rp (signedUrlRequest opts) w)))
         \<and> (\<forall>d. getProp response ''data'' = Inr d \<and> getProp d ''signedUrl'' = Inr JUndefined \<longrightarrow>
               eventsOf (putRecord rp gzip opts w) =
                 [Compress (body opts), Call (signedUrlRequest opts),
                  Call ((requestOpts opts (gzip (body opts)))\<lparr>url := JUndefined\<rparr>)]
               \<and> completionOf (putRecord rp gzip opts w) =
                   settle (fst (rp ((requestOpts opts (gzip (body opts)))\<lparr>url := JUndefined\<rparr>)
                                   (snd (rp (signedUrlRequest opts) w)))))"
proof (rule conjI)
  show "response = JUndefined \<or> response = JNull
          \<or> getProp response ''data'' = Inr JUndefined \<or> getProp response ''data'' = Inr JNull \<longrightarrow>
            putRecord rp gzip opts w =
              (Rejects TypeError, [Compress (body opts), Call (signedUrlRequest opts)],
               snd (rp (signedUrlRequest opts) w))"
  proof (rule impI)
  assume "response = JUndefined \<or> response = JNull
          \<or> getProp response ''data'' = Inr JUndefined \<or> getProp response ''data'' = Inr JNull"
  then have "signedUrlOf response = Inl TypeError"
    by (rule signedUrlOf_unreadable)
  then have "upload rp opts (gzip (body opts)) w =
      (Rejects TypeError, [Call (signedUrlRequest opts)], snd (rp (signedUrlRequest opts) w))"
    using assms(2,3) by (simp add: upload_large_unreadable threshold_value)
  then show "putRecord rp gzip opts w =
      (Rejects TypeError, [Compress (body opts), Call (signedUrlRequest opts)],
       snd (rp (signedUrlRequest opts) w))"
    using assms(1) by (simp add: putRecord_valid)
  qed
next
  show "\<forall>d. getProp response ''data'' = Inr d \<and> getProp d ''signedUrl'' = Inr JUndefined \<longrightarrow>
               eventsOf (putRecord rp gzip opts w) =
                 [Compress (body opts), Call (signedUrlRequest opts),
                  Call ((requestOpts opts (gzip (body opts)))\<lparr>url := JUndefined\<rparr>)]
               \<and> completionOf (putRecord rp gzip opts w) =
                   settle (fst (rp ((requestOpts opts (gzip (body opts)))\<lparr>url := JUndefined\<rparr>)
                                   (snd (rp (signedUrlRequest opts) w))))"
  proof (intro allI impI)
  fix d
  assume "getProp response ''data'' = Inr d \<and> getProp d ''signedUrl'' = Inr JUndefined"
  then have "signedUrlOf response = Inr JUndefined"
    by (simp add: signedUrlOf_absent)
  then have "upload rp opts (gzip (body opts)) w =
      (settle (fst (rp ((requestOpts opts (gzip (body opts)))\<lparr>url := JUndefined\<rparr>)
                       (snd (rp (signedUrlRequest opts) w)))),
       [Call (signedUrlRequest opts),
        Call ((requestOpts opts (gzip (body opts)))\<lparr>url := JUndefined\<rparr>)],
       snd (rp ((requestOpts opts (gzip (body opts)))\<lparr>url := JUndefined\<rparr>)
               (snd (rp (signedUrlRequest opts) w))))"
    using assms(2,3) upload_large_signed [of "gzip (body opts)" rp opts w response JUndefined]
    by (simp add: threshold_value)
  then show "eventsOf (putRecord rp gzip opts w) =
                 [Compress (body opts), Call (signedUrlRequest opts),
                  Call ((requestOpts opts (gzip (body opts)))\<lparr>url := JUndefined\<rparr>)]
               \<and> completionOf (putRecord rp gzip opts w) =
                   settle (fst (rp ((requestOpts opts (gzip (body opts)))\<lparr>url := JUndefined\<rparr>)
                                   (snd (rp (signedUrlRequest opts) w))))"
    using assms(1) by (simp add: putRecord_valid)
  qed
qed

text \<open>A response \<open>{}\<close>: no \<open>data\<close>, so the call is rejected after the GET.\<close>

theorem signedUrl_response_without_url_witness:
  "checkParams exampleOptions = Inr ()
   \<and> \<not> length (gzipLarge (body exampleOptions)) < 262144
   \<and> fst (noDataTransport (signedUrlRequest exampleOptions) 0) = Inr (JObj [])
   \<and> getProp (JObj []) ''data'' = Inr JUndefined
   \<and> putRecord noDataTransport gzipLarge exampleOptions 0 =
       (Rejects TypeError, [Compress (body exampleOptions), Call (signedUrlRequest exampleOptions)], 1)"
proof -
  have l: "\<not> length (gzipLarge (body exampleOptions)) < 262144"
    by (simp add: gzipLarge_def)
  have g: "fst (noDataTransport (signedUrlRequest exampleOptions) 0) = Inr (JObj [])"
    by (simp add: noDataTransport_def)
  have p: "getProp (JObj []) ''data'' = Inr JUndefined"
    by simp
  note t = signedUrl_response_without_url
      [where opts = exampleOptions and gzip = gzipLarge and rp = noDataTransport and w = 0,
       OF exampleOptions_valid l g]
  from t p have "putRecord noDataTransport gzipLarge exampleOptions 0 =
      (Rejects TypeError, [Compress (body exampleOptions), Call (signedUrlRequest exampleOptions)],
       snd (noDataTransport (signedUrlRequest exampleOptions) 0))"
    by blast
  then show ?thesis
    using l g p exampleOptions_valid by (simp add: noDataTransport_def)
qed

text \<open>
  A response \<open>{data: {}}\<close> from a transport that answers every request: the GET is
  followed by a PUT whose \<open>url\<close> is \<open>undefined\<close>, and the call resolves.
\<close>

theorem put_issued_without_signedUrl:
  "fst (noSignedUrlTransport (signedUrlRequest exampleOptions) 0) = Inr (JObj [(''data'', JObj [])])
   \<and> map httpMethod (calls (eventsOf (putRecord noSignedUrlTransport gzipLarge exampleOptions 0))) =
       [''GET'', ''PUT'']
   \<and> map url (calls (eventsOf (putRecord noSignedUrlTransport gzipLarge exampleOptions 0))) =
       [JStr ''https://api.example/v2/key-value-stores/store1/records/foo/direct-upload-url'',
        JUndefined]
   \<and> completionOf (putRecord noSignedUrlTransport gzipLarge exampleOptions 0) =
       Resolves (JObj [(''data'', JObj [])])"
proof -
  have l: "\<not> length (gzipLarge (body exampleOptions)) < SIGNED_URL_UPLOAD_MIN_BYTESIZE"
    by (simp add: gzipLarge_def threshold_value)
  have g: "fst (noSignedUrlTransport (signedUrlRequest exampleOptions) 0) =
           Inr (JObj [(''data'', JObj [])])"
    by (simp add: noSignedUrlTransport_def)
  have s: "signedUrlOf (JObj [(''data'', JObj [])]) = Inr JUndefined"
    by (simp add: signedUrlOf_def)
  have "upload noSignedUrlTransport exampleOptions (gzipLarge (body exampleOptions)) 0 =
      (Resolves (JObj [(''data'', JObj [])]),
       [Call (signedUrlRequest exampleOptions),
        Call ((requestOpts exampleOptions (gzipLarge (body exampleOptions)))\<lparr>url := JUndefined\<rparr>)],
       2)"
    using upload_large_signed
      [where z = "gzipLarge (body exampleOptions)" and rp = noSignedUrlTransport
         and opts = exampleOptions and w = 0, OF l g s]
    by (simp add: noSignedUrlTransport_def)
  then have "putRecord noSignedUrlTransport gzipLarge exampleOptions 0 =
      (Resolves (JObj [(''data'', JObj [])]),
       [Compress (body exampleOptions), Call (signedUrlRequest exampleOptions),
        Call ((requestOpts exampleOptions (gzipLarge (body exampleOptions)))\<lparr>url := JUndefined\<rparr>)],
       2)"
    by (simp add: putRecord_valid exampleOptions_valid)
  then show ?thesis
    using g by (simp add: signedUrlRequest_def requestOpts_def exampleOptions_def BASE_PATH_def)
qed

subsection \<open>Parameter validation comes first\<close>

lemma checkParamOrThrow_missingOrEmpty_String:
  "missingOrEmpty v \<Longrightarrow> checkParamOrThrow v name [TString] = Inl (InvalidParameter name)"
  by (auto simp: missingOrEmpty_def checkParamOrThrow_def)

lemma checkParamOrThrow_missingOrEmpty_Buffer_String:
  "missingOrEmpty v \<Longrightarrow>
   checkParamOrThrow v name [TBuffer, TString] = Inl (InvalidParameter name)"
  by (auto simp: missingOrEmpty_def checkParamOrThrow_def)

lemma checkParamOrThrow_cases:
  "checkParamOrThrow v name tys = Inr () \<or> checkParamOrThrow v name tys = Inl (InvalidParameter name)"
  by (simp add: checkParamOrThrow_def)

lemma checkParamOrThrow_Inl:
  "checkParamOrThrow v name tys = Inl e \<Longrightarrow> e = InvalidParameter name"
  by (auto simp: checkParamOrThrow_def split: if_splits)

lemma checkParams_error_names:
  "checkParams opts = Inl e \<Longrightarrow> \<exists>name. e = InvalidParameter name \<and> name \<in> set parameterNames"
proof -
  assume a: "checkParams opts = Inl e"
  have n: "''baseUrl'' \<in> set parameterNames" "''storeId'' \<in> set parameterNames"
    "''key'' \<in> set parameterNames" "''contentType'' \<in> set parameterNames"
    "''body'' \<in> set parameterNames"
    by (simp_all add: parameterNames_def)
  consider "checkParamOrThrow (baseUrl opts) ''baseUrl'' [TString] = Inl e"
    | "checkParamOrThrow (storeId opts) ''storeId'' [TString] = Inl e"
    | "checkParamOrThrow (key opts) ''key'' [TString] = Inl e"
    | "checkParamOrThrow (contentTypeOf opts) ''contentType'' [TString] = Inl e"
    | "checkParamOrThrow (body opts) ''body'' [TBuffer, TString] = Inl e"
    using a unfolding checkParams_def by (simp split: sum.splits)
  then show ?thesis
  proof cases
    case 1 then show ?thesis using n(1) checkParamOrThrow_Inl by blast
  next
    case 2 then show ?thesis using n(2) checkParamOrThrow_Inl by blast
  next
    case 3 then show ?thesis using n(3) checkParamOrThrow_Inl by blast
  next
    case 4 then show ?thesis using n(4) checkParamOrThrow_Inl by blast
  next
    case 5 then show ?thesis using n(5) checkParamOrThrow_Inl by blast
  qed
qed

lemma checkParams_Inr_iff:
  "checkParams opts = Inr () \<longleftrightarrow>
     checkParamOrThrow (baseUrl opts) ''baseUrl'' [TString] = Inr ()
     \<and> checkParamOrThrow (storeId opts) ''storeId'' [TString] = Inr ()
     \<and> checkParamOrThrow (key opts) ''key'' [TString] = Inr ()
     \<and> checkParamOrThrow (contentTypeOf opts) ''contentType'' [TString] = Inr ()
     \<and> checkParamOrThrow (body opts) ''body'' [TBuffer, TString] = Inr ()"
  unfolding checkParams_def by (simp split: sum.splits)

lemma checkParams_missingOrEmpty:
  assumes "missingOrEmpty (storeId opts) \<or> missingOrEmpty (key opts) \<or> missingOrEmpty (body opts)"
  shows "\<exists>e. checkParams opts = Inl e"
proof (cases "checkParams opts")
  case (Inl e)
  then show ?thesis by blast
next
  case (Inr u)
  then have "checkParams opts = Inr ()" by simp
  then have "checkParamOrThrow (storeId opts) ''storeId'' [TString] = Inr ()"
    and "checkParamOrThrow (key opts) ''key'' [TString] = Inr ()"
    and "checkParamOrThrow (body opts) ''body'' [TBuffer, TString] = Inr ()"
    by (simp_all add: checkParams_Inr_iff)
  then show ?thesis
    using assms checkParamOrThrow_missingOrEmpty_String [of "storeId opts" "''storeId''"]
      checkParamOrThrow_missingOrEmpty_String [of "key opts" "''key''"]
      checkParamOrThrow_missingOrEmpty_Buffer_String [of "body opts" "''body''"]
    by auto
qed

text \<open>
  C4. When \<open>storeId\<close>, \<open>key\<close> or \<open>body\<close> is missing (\<open>undefined\<close> or \<open>null\<close>) or
  empty, \<open>putRecord\<close> throws an \<open>InvalidParameter\<close> error, naming one of its five
  parameters, before it returns a promise: nothing was compressed, the transport was not
  called and the outside world is as it was.
\<close>

theorem missing_or_empty_parameter_throws_before_io:
  assumes "missingOrEmpty (storeId opts) \<or> missingOrEmpty (key opts) \<or> missingOrEmpty (body opts)"
  shows "\<exists>name. name \<in> set parameterNames
           \<and> putRecord rp gzip opts w = (Throws (InvalidParameter name), [], w)"
proof -
  obtain e where e: "checkParams opts = Inl e"
    using assms checkParams_missingOrEmpty by blast
  then obtain name where "e = InvalidParameter name"
    and "name \<in> set parameterNames"
    using checkParams_error_names by blast
  then show ?thesis
    using e putRecord_invalid [of opts e rp gzip w] by blast
qed

text \<open>The documented call with an empty key.\<close>

theorem missing_or_empty_parameter_throws_before_io_witness:
  "missingOrEmpty (key (exampleOptions\<lparr>key := JStr []\<rparr>))
   \<and> (\<exists>name. putRecord okTransport gzipSmall (exampleOptions\<lparr>key := JStr []\<rparr>) 0 =
         (Throws (InvalidParameter name), [], 0))
   \<and> putRecord okTransport gzipSmall (exampleOptions\<lparr>key := JStr []\<rparr>) 0 =
       (Throws (InvalidParameter ''key''), [], 0)"
proof -
  have m: "missingOrEmpty (key (exampleOptions\<lparr>key := JStr []\<rparr>))"
    by (simp add: missingOrEmpty_def)
  then have h: "missingOrEmpty (storeId (exampleOptions\<lparr>key := JStr []\<rparr>))
      \<or> missingOrEmpty (key (exampleOptions\<lparr>key := JStr []\<rparr>))
      \<or> missingOrEmpty (body (exampleOptions\<lparr>key := JStr []\<rparr>))"
    by blast
  have x: "\<exists>name. putRecord okTransport gzipSmall (exampleOptions\<lparr>key := JStr []\<rparr>) 0 =
         (Throws (InvalidParameter name), [], 0)"
    using missing_or_empty_parameter_throws_before_io [OF h, of okTransport gzipSmall 0]
    by blast
  have "checkParams (exampleOptions\<lparr>key := JStr []\<rparr>) = Inl (InvalidParameter ''key'')"
    by (simp add: checkParams_def checkParamOrThrow_def exampleOptions_def)
  then have "putRecord okTransport gzipSmall (exampleOptions\<lparr>key := JStr []\<rparr>) 0 =
       (Throws (InvalidParameter ''key''), [], 0)"
    by (rule putRecord_invalid)
  with m x show ?thesis
    by blast
qed

text \<open>
  C9. \<open>baseUrl\<close> is checked too, and first: when it is missing or anything but a string,
  \<open>putRecord\<close> throws \<open>InvalidParameter\<close> for \<open>baseUrl\<close> with nothing compressed and no
  request made, whatever the other parameters are.
\<close>

theorem baseUrl_checked_before_io:
  assumes "typeOf (baseUrl opts) \<noteq> TString"
  shows "putRecord rp gzip opts w = (Throws (InvalidParameter ''baseUrl''), [], w)"
proof -
  have "checkParams opts = Inl (InvalidParameter ''baseUrl'')"
    using assms by (simp add: checkParams_def checkParamOrThrow_def)
  then show ?thesis
    by (rule putRecord_invalid)
qed

theorem baseUrl_checked_before_io_witness:
  "typeOf (baseUrl (exampleOptions\<lparr>baseUrl := JUndefined\<rparr>)) \<noteq> TString
   \<and> putRecord okTransport gzipSmall (exampleOptions\<lparr>baseUrl := JUndefined\<rparr>) 0 =
       (Throws (InvalidParameter ''baseUrl''), [], 0)"
proof -
  have t: "typeOf (baseUrl (exampleOptions\<lparr>baseUrl := JUndefined\<rparr>)) \<noteq> TString"
    by simp
  show ?thesis
    using baseUrl_checked_before_io [OF t, of okTransport gzipSmall 0] t by blast
qed

end
